theory Spec2Isabelle
  imports Complex_Main
begin

section \<open>Numbers\<close>

text \<open>
  The engine computes on 64-bit floats (numpy scalars read from a pandas frame). A value is
  either finite or one of the three non-finite results that float arithmetic produces
  instead of raising: plus infinity, minus infinity and not-a-number. Finite arithmetic is
  taken exactly (over the reals): rounding error and overflow of finite results are not
  part of this model, and zero carries no sign. Python's integer \<open>0\<close> is the finite value
  \<open>0\<close>.
\<close>

datatype pyfloat = Fin real | PInf | NInf | NaN

fun fneg :: "pyfloat \<Rightarrow> pyfloat" where
  "fneg (Fin a) = Fin (- a)"
| "fneg PInf = NInf"
| "fneg NInf = PInf"
| "fneg NaN = NaN"

fun fadd :: "pyfloat \<Rightarrow> pyfloat \<Rightarrow> pyfloat" where
  "fadd (Fin a) (Fin b) = Fin (a + b)"
| "fadd NaN _ = NaN"
| "fadd _ NaN = NaN"
| "fadd PInf NInf = NaN"
| "fadd NInf PInf = NaN"
| "fadd PInf _ = PInf"
| "fadd _ PInf = PInf"
| "fadd NInf _ = NInf"
| "fadd _ NInf = NInf"

definition fsub :: "pyfloat \<Rightarrow> pyfloat \<Rightarrow> pyfloat" where
  "fsub x y = fadd x (fneg y)"

fun fmul :: "pyfloat \<Rightarrow> pyfloat \<Rightarrow> pyfloat" where
  "fmul (Fin a) (Fin b) = Fin (a * b)"
| "fmul NaN _ = NaN"
| "fmul _ NaN = NaN"
| "fmul (Fin a) PInf = (if a = 0 then NaN else if 0 < a then PInf else NInf)"
| "fmul (Fin a) NInf = (if a = 0 then NaN else if 0 < a then NInf else PInf)"
| "fmul PInf (Fin b) = (if b = 0 then NaN else if 0 < b then PInf else NInf)"
| "fmul NInf (Fin b) = (if b = 0 then NaN else if 0 < b then NInf else PInf)"
| "fmul PInf PInf = PInf"
| "fmul PInf NInf = NInf"
| "fmul NInf PInf = NInf"
| "fmul NInf NInf = PInf"

text \<open>
  Division of numpy scalars never raises: a zero divisor gives an infinity of the sign of
  the dividend, and \<open>0 / 0\<close> gives not-a-number.
\<close>

fun fdiv :: "pyfloat \<Rightarrow> pyfloat \<Rightarrow> pyfloat" where
  "fdiv (Fin a) (Fin b) =
     (if b \<noteq> 0 then Fin (a / b) else if a = 0 then NaN else if 0 < a then PInf else NInf)"
| "fdiv NaN _ = NaN"
| "fdiv _ NaN = NaN"
| "fdiv (Fin a) PInf = Fin 0"
| "fdiv (Fin a) NInf = Fin 0"
| "fdiv PInf (Fin b) = (if 0 \<le> b then PInf else NInf)"
| "fdiv NInf (Fin b) = (if 0 \<le> b then NInf else PInf)"
| "fdiv PInf PInf = NaN"
| "fdiv PInf NInf = NaN"
| "fdiv NInf PInf = NaN"
| "fdiv NInf NInf = NaN"

text \<open>\<open>x ** n\<close> for a natural exponent; \<open>x ** 0\<close> is \<open>1\<close> for every \<open>x\<close>.\<close>

fun fpow :: "pyfloat \<Rightarrow> nat \<Rightarrow> pyfloat" where
  "fpow x 0 = Fin 1"
| "fpow x (Suc n) = fmul x (fpow x n)"

text \<open>
  \<open>x ** e\<close> for a real exponent \<open>0 < e \<le> 1\<close>, the only exponents the engine uses
  (\<open>1 / (n - 1)\<close> with \<open>n \<ge> 2\<close>). A negative base with a fractional exponent is
  not-a-number.
\<close>

definition fpowr :: "pyfloat \<Rightarrow> real \<Rightarrow> pyfloat" where
  "fpowr x e =
     (if e = 1 then x
      else case x of
             Fin a \<Rightarrow> if a < 0 then NaN else Fin (a powr e)
           | PInf \<Rightarrow> PInf
           | NInf \<Rightarrow> PInf
           | NaN \<Rightarrow> NaN)"

text \<open>Comparisons: every comparison with not-a-number is false.\<close>

fun fle :: "pyfloat \<Rightarrow> pyfloat \<Rightarrow> bool" where
  "fle NaN _ = False"
| "fle _ NaN = False"
| "fle (Fin a) (Fin b) = (a \<le> b)"
| "fle NInf _ = True"
| "fle _ PInf = True"
| "fle _ _ = False"

definition fge :: "pyfloat \<Rightarrow> pyfloat \<Rightarrow> bool" where
  "fge x y = fle y x"

fun fabs :: "pyfloat \<Rightarrow> pyfloat" where
  "fabs (Fin a) = Fin \<bar>a\<bar>"
| "fabs PInf = PInf"
| "fabs NInf = PInf"
| "fabs NaN = NaN"

fun fsqrt :: "pyfloat \<Rightarrow> pyfloat" where
  "fsqrt (Fin a) = (if a < 0 then NaN else Fin (sqrt a))"
| "fsqrt PInf = PInf"
| "fsqrt NInf = NaN"
| "fsqrt NaN = NaN"



fun fround :: "(real \<Rightarrow> nat \<Rightarrow> real) \<Rightarrow> pyfloat \<Rightarrow> nat \<Rightarrow> pyfloat" where
  "fround rnd (Fin a) n = Fin (rnd a n)"
| "fround rnd x n = x"

text \<open>One rounding function, used to run the engine on sample data: ties go to the even
  neighbour of the exact value.\<close>

definition round_half_even :: "real \<Rightarrow> int" where
  "round_half_even x =
     (let f = \<lfloor>x\<rfloor>; d = x - of_int f
      in if d < 1 / 2 then f else if 1 / 2 < d then f + 1 else if even f then f else f + 1)"

definition round_ties_even :: "real \<Rightarrow> nat \<Rightarrow> real" where
  "round_ties_even x n = of_int (round_half_even (x * 10 ^ n)) / 10 ^ n"

text \<open>
  The mean of a pandas series skips not-a-number entries; with nothing left it is
  not-a-number.
\<close>

definition mean_skipna :: "pyfloat list \<Rightarrow> pyfloat" where
  "mean_skipna xs =
     (let ys = filter (\<lambda>x. x \<noteq> NaN) xs
      in if ys = [] then NaN else fdiv (foldl fadd (Fin 0) ys) (Fin (real (length ys))))"

text \<open>
  The standard deviation of a pandas series: not-a-number entries are skipped, the divisor
  is the count less one, and fewer than two values give not-a-number.
\<close>

definition std_skipna :: "pyfloat list \<Rightarrow> pyfloat" where
  "std_skipna xs =
     (let ys = filter (\<lambda>x. x \<noteq> NaN) xs
      in if length ys < 2 then NaN
         else let m = fdiv (foldl fadd (Fin 0) ys) (Fin (real (length ys)))
              in fsqrt (fdiv (foldl fadd (Fin 0) (map (\<lambda>y. fmul (fsub y m) (fsub y m)) ys))
                          (Fin (real (length ys) - 1))))"

text \<open>
  \<open>pct_change\<close> of a series of finite values: the first entry is not-a-number, every later
  one is \<open>current / previous - 1\<close>.
\<close>

fun pct_change :: "real list \<Rightarrow> pyfloat list" where
  "pct_change [] = []"
| "pct_change (x # xs) =
     NaN # map (\<lambda>(prev, cur). fsub (fdiv (Fin cur) (Fin prev)) (Fin 1)) (zip (x # xs) xs)"

section \<open>Data model\<close>

text \<open>
  A date is a calendar day (year, month 1..12, day); the time of day, which no operation
  of the engine changes, is left out. A period is one
  row of the loaded frame, with the columns the engine reads. The reported facts are
  finite amounts; the margin columns are quotients computed at load time and can be
  non-finite.
\<close>

type_synonym date = "int \<times> nat \<times> nat"

record period =
  date :: date
  year :: int
  revenue :: real
  gross_profit :: real
  operating_income :: real
  net_income :: real
  interest_expense :: real
  total_assets :: real
  total_liabilities :: real
  total_equity :: real
  cash :: real
  current_assets :: real
  current_liabilities :: real
  inventory :: real
  long_term_debt :: real
  ebitda :: real
  gross_margin :: pyfloat
  operating_margin :: pyfloat
  net_margin :: pyfloat
  ebitda_margin :: pyfloat

text \<open>A frame is the list of its rows, oldest first. A result dictionary is an
  association list in insertion order.\<close>

datatype error = IndexError | KeyError | ValueError

text \<open>\<open>df.iloc[-1]\<close> and \<open>df.iloc[-2]\<close>: out of bounds raises.\<close>

definition iloc_neg :: "'a list \<Rightarrow> nat \<Rightarrow> error + 'a" where
  "iloc_neg df k = (if 0 < k \<and> k \<le> length df then Inr (df ! (length df - k)) else Inl IndexError)"

text \<open>Sequencing of calls that can raise: the first error is the result.\<close>

definition bind :: "error + 'a \<Rightarrow> ('a \<Rightarrow> error + 'b) \<Rightarrow> error + 'b" where
  "bind r f = (case r of Inl e \<Rightarrow> Inl e | Inr x \<Rightarrow> f x)"

text \<open>\<open>d[k]\<close> on a dictionary; a missing key raises.\<close>

definition getitem :: "(string \<times> 'v) list \<Rightarrow> string \<Rightarrow> error + 'v" where
  "getitem d k = (case map_of d k of None \<Rightarrow> Inl KeyError | Some v \<Rightarrow> Inr v)"

text \<open>
  Reading a call's outcome: \<open>item r k\<close> is the entry under key \<open>k\<close> of the dictionary the
  call returned, and \<open>column r k\<close> is column \<open>k\<close> of the rows it returned; both are \<open>None\<close>
  when the call raised. \<open>col rows k\<close> is column \<open>k\<close> of a frame.
\<close>

definition item :: "error + (string \<times> 'v) list \<Rightarrow> string \<Rightarrow> 'v option" where
  "item r k = (case r of Inl e \<Rightarrow> None | Inr d \<Rightarrow> map_of d k)"

definition col :: "(string \<times> 'v) list list \<Rightarrow> string \<Rightarrow> 'v option list" where
  "col rows k = map (\<lambda>row. map_of row k) rows"

definition column :: "error + (string \<times> 'v) list list \<Rightarrow> string \<Rightarrow> 'v option list option" where
  "column r k = (case r of Inl e \<Rightarrow> None | Inr rows \<Rightarrow> Some (col rows k))"

text \<open>A cell of a result row: a number, an integer (a year), a string or a date.\<close>

datatype pyval = Num pyfloat | IntV int | Str string | Date date

section \<open>Ratio and KPI engine\<close>

definition calculate_kpis :: "period list \<Rightarrow> error + (string \<times> pyfloat) list" where
  "calculate_kpis df =
     (case iloc_neg df 1 of
        Inl e \<Rightarrow> Inl e
      | Inr latest \<Rightarrow>
          (case (if length df > 1
                 then (case iloc_neg df 2 of
                         Inl e \<Rightarrow> Inl e
                       | Inr previous \<Rightarrow>
                           Inr (fmul (fsub (fdiv (Fin (revenue latest)) (Fin (revenue previous)))
                                       (Fin 1)) (Fin 100),
                                fmul (fsub (fdiv (Fin (net_income latest))
                                             (Fin (net_income previous))) (Fin 1)) (Fin 100)))
                 else Inr (Fin 0, Fin 0)) of
             Inl e \<Rightarrow> Inl e
           | Inr (revenue_change, net_income_change) \<Rightarrow>
               Inr [(''total_revenue'', Fin (revenue latest)),
                    (''revenue_change'', revenue_change),
                    (''gross_profit'', Fin (gross_profit latest)),
                    (''gross_margin'', gross_margin latest),
                    (''operating_income'', Fin (operating_income latest)),
                    (''operating_margin'', operating_margin latest),
                    (''net_income'', Fin (net_income latest)),
                    (''net_income_change'', net_income_change),
                    (''net_margin'', net_margin latest),
                    (''ebitda'', Fin (ebitda latest)),
                    (''ebitda_margin'', ebitda_margin latest),
                    (''total_assets'', Fin (total_assets latest)),
                    (''total_liabilities'', Fin (total_liabilities latest)),
                    (''total_equity'', Fin (total_equity latest)),
                    (''cash'', Fin (cash latest))]))"

definition calculate_liquidity_ratios ::
    "(real \<Rightarrow> nat \<Rightarrow> real) \<Rightarrow> period list \<Rightarrow> error + (string \<times> pyfloat) list" where
  "calculate_liquidity_ratios rnd df =
     (case iloc_neg df 1 of
        Inl e \<Rightarrow> Inl e
      | Inr latest \<Rightarrow>
          (let current_ratio = fdiv (Fin (current_assets latest)) (Fin (current_liabilities latest));
               quick_ratio = fdiv (Fin (current_assets latest - inventory latest))
                               (Fin (current_liabilities latest));
               cash_ratio = fdiv (Fin (cash latest)) (Fin (current_liabilities latest))
           in Inr [(''current_ratio'', fround rnd current_ratio 2),
                   (''quick_ratio'', fround rnd quick_ratio 2),
                   (''cash_ratio'', fround rnd cash_ratio 2)]))"

definition calculate_leverage_ratios ::
    "(real \<Rightarrow> nat \<Rightarrow> real) \<Rightarrow> period list \<Rightarrow> error + (string \<times> pyfloat) list" where
  "calculate_leverage_ratios rnd df =
     (case iloc_neg df 1 of
        Inl e \<Rightarrow> Inl e
      | Inr latest \<Rightarrow>
          (let debt_to_equity = fdiv (Fin (total_liabilities latest)) (Fin (total_equity latest));
               debt_ratio = fdiv (Fin (total_liabilities latest)) (Fin (total_assets latest));
               interest_coverage =
                 (if interest_expense latest > 0
                  then fdiv (Fin (operating_income latest)) (Fin (interest_expense latest))
                  else Fin 0);
               lt_debt_to_equity = fdiv (Fin (long_term_debt latest)) (Fin (total_equity latest))
           in Inr [(''debt_to_equity'', fround rnd debt_to_equity 2),
                   (''debt_ratio'', fround rnd debt_ratio 2),
                   (''interest_coverage'', fround rnd interest_coverage 2),
                   (''lt_debt_to_equity'', fround rnd lt_debt_to_equity 2)]))"

definition calculate_profitability_ratios ::
    "(real \<Rightarrow> nat \<Rightarrow> real) \<Rightarrow> period list \<Rightarrow> error + (string \<times> pyfloat) list" where
  "calculate_profitability_ratios rnd df =
     (case iloc_neg df 1 of
        Inl e \<Rightarrow> Inl e
      | Inr latest \<Rightarrow>
          (let roa = fmul (fdiv (Fin (net_income latest * 12)) (Fin (total_assets latest))) (Fin 100);
               roe = fmul (fdiv (Fin (net_income latest * 12)) (Fin (total_equity latest))) (Fin 100);
               invested_capital = total_equity latest + long_term_debt latest;
               roic = fmul (fdiv (Fin (operating_income latest * 12)) (Fin invested_capital)) (Fin 100)
           in Inr [(''roa'', fround rnd roa 2),
                   (''roe'', fround rnd roe 2),
                   (''roic'', fround rnd roic 2),
                   (''gross_margin'', gross_margin latest),
                   (''operating_margin'', operating_margin latest),
                   (''net_margin'', net_margin latest)]))"

text \<open>
  The two greater-or-equal and less-or-equal signs of the benchmark strings, as UTF-8
  bytes.
\<close>

definition ge_sign :: string where
  "ge_sign = [CHR 0xE2, CHR 0x89, CHR 0xA5]"

definition le_sign :: string where
  "le_sign = [CHR 0xE2, CHR 0x89, CHR 0xA4]"

text \<open>
  \<open>get_health_indicators\<close> formats two of its values with an f-string. How Python prints
  a float is not part of the engine: \<open>fmt\<close> stands for it.
\<close>

definition get_health_indicators ::
    "(real \<Rightarrow> nat \<Rightarrow> real) \<Rightarrow> (pyfloat \<Rightarrow> string) \<Rightarrow> period list
      \<Rightarrow> error + (string \<times> pyval) list list" where
  "get_health_indicators rnd fmt df =
     bind (calculate_liquidity_ratios rnd df) (\<lambda>liquidity.
     bind (calculate_leverage_ratios rnd df) (\<lambda>leverage.
     bind (calculate_profitability_ratios rnd df) (\<lambda>profitability.
     bind (getitem liquidity ''current_ratio'') (\<lambda>cr.
     bind (getitem liquidity ''quick_ratio'') (\<lambda>qr.
     bind (getitem leverage ''debt_to_equity'') (\<lambda>de.
     bind (getitem leverage ''interest_coverage'') (\<lambda>ic.
     bind (getitem profitability ''roe'') (\<lambda>roe.
     bind (getitem profitability ''net_margin'') (\<lambda>nm.
       Inr [[(''metric'', Str ''Current Ratio''),
             (''value'', Num cr),
             (''status'', Str (if fge cr (Fin 1.5) then ''Good''
                               else if fge cr (Fin 1.0) then ''Warning'' else ''Critical'')),
             (''benchmark'', Str (ge_sign @ '' 1.5'')),
             (''description'', Str ''Ability to pay short-term obligations'')],
            [(''metric'', Str ''Quick Ratio''),
             (''value'', Num qr),
             (''status'', Str (if fge qr (Fin 1.0) then ''Good''
                               else if fge qr (Fin 0.7) then ''Warning'' else ''Critical'')),
             (''benchmark'', Str (ge_sign @ '' 1.0'')),
             (''description'', Str ''Liquid assets coverage of current liabilities'')],
            [(''metric'', Str ''Debt to Equity''),
             (''value'', Num de),
             (''status'', Str (if fle de (Fin 1.0) then ''Good''
                               else if fle de (Fin 2.0) then ''Warning'' else ''Critical'')),
             (''benchmark'', Str (le_sign @ '' 1.0'')),
             (''description'', Str ''Financial leverage level'')],
            [(''metric'', Str ''Interest Coverage''),
             (''value'', Num ic),
             (''status'', Str (if fge ic (Fin 3.0) then ''Good''
                               else if fge ic (Fin 1.5) then ''Warning'' else ''Critical'')),
             (''benchmark'', Str (ge_sign @ '' 3.0'')),
             (''description'', Str ''Ability to service debt'')],
            [(''metric'', Str ''Return on Equity''),
             (''value'', Str (fmt roe @ ''%'')),
             (''status'', Str (if fge roe (Fin 15) then ''Good''
                               else if fge roe (Fin 10) then ''Warning'' else ''Critical'')),
             (''benchmark'', Str (ge_sign @ '' 15%'')),
             (''description'', Str ''Shareholder return efficiency'')],
            [(''metric'', Str ''Net Profit Margin''),
             (''value'', Str (fmt nm @ ''%'')),
             (''status'', Str (if fge nm (Fin 15) then ''Good''
                               else if fge nm (Fin 10) then ''Warning'' else ''Critical'')),
             (''benchmark'', Str (ge_sign @ '' 15%'')),
             (''description'', Str ''Bottom line profitability'')]])))))))))"

section \<open>Annual summary\<close>

text \<open>
  \<open>df.groupby('year')\<close>: one group per distinct year, in ascending order of the year, each
  with its rows in frame order.
\<close>

definition years_of :: "period list \<Rightarrow> int list" where
  "years_of df = sort (remdups (map year df))"

definition year_group :: "period list \<Rightarrow> int \<Rightarrow> period list" where
  "year_group df y = filter (\<lambda>p. year p = y) df"

definition groupby_year :: "period list \<Rightarrow> (int \<times> period list) list" where
  "groupby_year df = map (\<lambda>y. (y, year_group df y)) (years_of df)"

definition agg_sum :: "(period \<Rightarrow> real) \<Rightarrow> (int \<times> period list) list \<Rightarrow> real list" where
  "agg_sum c groups = map (\<lambda>(y, g). sum_list (map c g)) groups"




section \<open>Period comparison\<close>

text \<open>The empty dictionary \<open>{}\<close> is the empty association list.\<close>

definition get_period_comparison :: "period list \<Rightarrow> int \<Rightarrow> int \<Rightarrow> (string \<times> pyfloat) list" where
  "get_period_comparison df current_year previous_year =
     (let current = filter (\<lambda>p. year p = current_year) df;
          previous = filter (\<lambda>p. year p = previous_year) df
      in if current = [] \<or> previous = [] then []
         else [(''current_revenue'', Fin (sum_list (map revenue current))),
               (''previous_revenue'', Fin (sum_list (map revenue previous))),
               (''revenue_growth'',
                  fmul (fsub (fdiv (Fin (sum_list (map revenue current)))
                                (Fin (sum_list (map revenue previous)))) (Fin 1)) (Fin 100)),
               (''current_net_income'', Fin (sum_list (map net_income current))),
               (''previous_net_income'', Fin (sum_list (map net_income previous))),
               (''net_income_growth'',
                  fmul (fsub (fdiv (Fin (sum_list (map net_income current)))
                                (Fin (sum_list (map net_income previous)))) (Fin 1)) (Fin 100)),
               (''current_gross_margin'',
                  fmul (fdiv (Fin (sum_list (map gross_profit current)))
                          (Fin (sum_list (map revenue current)))) (Fin 100)),
               (''previous_gross_margin'',
                  fmul (fdiv (Fin (sum_list (map gross_profit previous)))
                          (Fin (sum_list (map revenue previous)))) (Fin 100))])"

section \<open>Scenario and growth projection engine\<close>

record growth_projections =
  avg_annual_growth :: pyfloat
  cagr :: pyfloat
  monthly_growth :: pyfloat
  projections :: "(string \<times> pyfloat) list"
  historical_annual :: "(int \<times> real) list"

definition calculate_growth_projections ::
    "(real \<Rightarrow> nat \<Rightarrow> real) \<Rightarrow> period list \<Rightarrow> growth_projections" where
  "calculate_growth_projections rnd df =
     (let groups = groupby_year df;
          df_annual = agg_sum revenue groups;
          (avg_growth, cagr_value) =
            (if length df_annual \<ge> 2
             then (let yoy_growth = filter (\<lambda>x. x \<noteq> NaN) (pct_change df_annual)
                   in (mean_skipna yoy_growth,
                       fsub (fpowr (fdiv (Fin (last df_annual)) (Fin (hd df_annual)))
                               (1 / (real (length df_annual) - 1))) (Fin 1)))
             else (Fin 0, Fin 0));
          monthly = mean_skipna (pct_change (map revenue df));
          last_year_revenue =
            (if df = [] then 0
             else sum_list (map revenue (filter (\<lambda>p. year p = Max (set (map year df))) df)))
      in \<lparr> avg_annual_growth = fround rnd (fmul avg_growth (Fin 100)) 2,
           cagr = fround rnd (fmul cagr_value (Fin 100)) 2,
           monthly_growth = fround rnd (fmul monthly (Fin 100)) 2,
           projections =
             [(''conservative'',
                 fmul (Fin last_year_revenue) (fadd (Fin 1) (fmul avg_growth (Fin 0.5)))),
              (''base'', fmul (Fin last_year_revenue) (fadd (Fin 1) avg_growth)),
              (''optimistic'',
                 fmul (Fin last_year_revenue) (fadd (Fin 1) (fmul avg_growth (Fin 1.5))))],
           historical_annual = zip (map fst groups) df_annual \<rparr>)"

text \<open>
  The scenario table maps a name to its growth and margin change, in insertion order.
  \<open>None\<close> is the default argument.
\<close>

definition default_scenarios :: "(string \<times> real \<times> real) list" where
  "default_scenarios =
     [(''pessimistic'', - 0.05, - 0.02), (''base'', 0.10, 0), (''optimistic'', 0.20, 0.02)]"

definition scenario_analysis ::
    "period list \<Rightarrow> (string \<times> real \<times> real) list option \<Rightarrow> error + (string \<times> pyval) list list" where
  "scenario_analysis df scenarios_arg =
     (let scenarios = (case scenarios_arg of None \<Rightarrow> default_scenarios | Some t \<Rightarrow> t)
      in bind (iloc_neg (map revenue df) 1) (\<lambda>latest_revenue.
         bind (iloc_neg (map net_margin df) 1) (\<lambda>latest_margin.
           let base_revenue = latest_revenue * 12;
               base_margin = fdiv latest_margin (Fin 100)
           in Inr (map (\<lambda>(scenario_name, growth, margin_change).
                     let projected_revenue = base_revenue * (1 + growth);
                         projected_margin = fadd base_margin (Fin margin_change);
                         projected_net_income = fmul (Fin projected_revenue) projected_margin
                     in [(''scenario'', Str scenario_name),
                         (''revenue'', Num (Fin projected_revenue)),
                         (''growth_rate'', Num (Fin (growth * 100))),
                         (''net_margin'', Num (fmul projected_margin (Fin 100))),
                         (''net_income'', Num projected_net_income)])
                   scenarios))))"

section \<open>Forecasting engine\<close>

text \<open>The metrics the dashboard offers for forecasting, with their column.\<close>

datatype metric = Revenue | Net_income | Gross_profit

fun metric_name :: "metric \<Rightarrow> string" where
  "metric_name Revenue = ''revenue''"
| "metric_name Net_income = ''net_income''"
| "metric_name Gross_profit = ''gross_profit''"

fun metric_value :: "metric \<Rightarrow> period \<Rightarrow> real" where
  "metric_value Revenue = revenue"
| "metric_value Net_income = net_income"
| "metric_value Gross_profit = gross_profit"

text \<open>
  Dates. \<open>add_month\<close> is \<open>date + pd.DateOffset(months=1)\<close>: the same day of the next month,
  or that month's last day when it is shorter. \<open>date_range start periods\<close> is
  \<open>pd.date_range(start=start, periods=periods, freq='MS')\<close>: consecutive month starts,
  the first one on or after \<open>start\<close>. \<open>max_date\<close> is the latest date of a column (none on
  an empty column).
\<close>

definition days_in_month :: "int \<Rightarrow> nat \<Rightarrow> nat" where
  "days_in_month y m =
     (if m = 2 then (if y mod 4 = 0 \<and> (y mod 100 \<noteq> 0 \<or> y mod 400 = 0) then 29 else 28)
      else if m = 4 \<or> m = 6 \<or> m = 9 \<or> m = 11 then 30 else 31)"

fun next_month_start :: "date \<Rightarrow> date" where
  "next_month_start (y, m, d) = (if m < 12 then (y, m + 1, 1) else (y + 1, 1, 1))"

fun add_month :: "date \<Rightarrow> date" where
  "add_month (y, m, d) =
     (if m < 12 then (y, m + 1, min d (days_in_month y (m + 1)))
      else (y + 1, 1, min d (days_in_month (y + 1) 1)))"

fun month_starts :: "date \<Rightarrow> nat \<Rightarrow> date list" where
  "month_starts first 0 = []"
| "month_starts first (Suc n) = first # month_starts (next_month_start first) n"

definition date_range :: "date \<Rightarrow> nat \<Rightarrow> date list" where
  "date_range start periods =
     month_starts (if snd (snd start) = 1 then start else next_month_start start) periods"

definition later :: "date \<Rightarrow> date \<Rightarrow> date" where
  "later a b =
     (if fst a < fst b \<or> (fst a = fst b \<and> fst (snd a) < fst (snd b))
         \<or> (fst a = fst b \<and> fst (snd a) = fst (snd b) \<and> snd (snd a) \<le> snd (snd b))
      then b else a)"

definition max_date :: "date list \<Rightarrow> date option" where
  "max_date ds = (case ds of [] \<Rightarrow> None | d # rest \<Rightarrow> Some (foldl later d rest))"

record forecast_result =
  forecast_df :: "(string \<times> pyval) list list"
  historical :: "(string \<times> pyval) list list"
  mae :: pyfloat
  mape :: pyfloat
  rmse :: pyfloat
  model_params :: "(string \<times> pyval) list"

text \<open>
  The fallback. \<open>series.iloc[-1]\<close> raises on an empty series; after it the frame has a
  latest date.
\<close>

definition simple_forecast :: "period list \<Rightarrow> metric \<Rightarrow> nat \<Rightarrow> error + forecast_result" where
  "simple_forecast df metric periods =
     (let series = map (metric_value metric) df;
          growth_rate = mean_skipna (pct_change series)
      in bind (iloc_neg series 1) (\<lambda>last_value.
           case max_date (map date df) of
             None \<Rightarrow> Inl ValueError
           | Some latest \<Rightarrow>
               (let forecast_dates = date_range (add_month latest) periods;
                    forecast_values =
                      map (\<lambda>i. fmul (Fin last_value) (fpow (fadd (Fin 1) growth_rate) (i + 1)))
                        [0..<periods]
                in Inr \<lparr> forecast_df =
                           map (\<lambda>(d, v). [(''date'', Date d),
                                           (''forecast'', Num v),
                                           (''lower_bound'', Num (fmul v (Fin 0.9))),
                                           (''upper_bound'', Num (fmul v (Fin 1.1)))])
                             (zip forecast_dates forecast_values),
                         historical =
                           map (\<lambda>p. [(''date'', Date (date p)),
                                      (metric_name metric, Num (Fin (metric_value metric p)))]) df,
                         mae = Fin 0,
                         mape = Fin 0,
                         rmse = Fin 0,
                         model_params = [(''method'', Str ''simple_growth'')] \<rparr>)))"

text \<open>
  The seasonal smoothing model is fitted by a statistics library, which is not part of the
  engine. \<open>fit series periods\<close> stands for constructing the model on the dated revenue
  series, fitting it and forecasting \<open>periods\<close> steps: \<open>None\<close> when any of these raises,
  otherwise the forecast, the in-sample residuals and fitted values (one per observation)
  and the three smoothing parameters.
\<close>

record hw_results =
  hw_forecast :: "pyfloat list"
  resid :: "pyfloat list"
  fittedvalues :: "pyfloat list"
  smoothing_level :: pyfloat
  smoothing_trend :: pyfloat
  smoothing_seasonal :: pyfloat

text \<open>
  The body of the \<open>try\<close> block of \<open>forecast_revenue\<close>: \<open>None\<close> when an exception is raised
  inside it (by the fit, by the date range of a frame without dates, or by building the
  forecast frame from columns of different lengths).
\<close>

definition seasonal_forecast ::
    "(real \<Rightarrow> nat \<Rightarrow> real) \<Rightarrow> ((date \<times> real) list \<Rightarrow> nat \<Rightarrow> hw_results option)
      \<Rightarrow> period list \<Rightarrow> nat \<Rightarrow> forecast_result option" where
  "seasonal_forecast rnd fit df periods =
     (case fit (map (\<lambda>p. (date p, revenue p)) df) periods of
        None \<Rightarrow> None
      | Some model \<Rightarrow>
          (let forecast = hw_forecast model;
               std_error = std_skipna (resid model)
           in case max_date (map date df) of
                None \<Rightarrow> None
              | Some latest \<Rightarrow>
                  (let forecast_dates = date_range (add_month latest) periods
                   in if length forecast \<noteq> periods then None
                      else
                        (let actual = map (\<lambda>p. Fin (revenue p)) df;
                             errors = map (\<lambda>(a, f). fsub a f) (zip actual (fittedvalues model));
                             mae_value = mean_skipna (map fabs errors);
                             mape_value =
                               fmul (mean_skipna
                                       (map (\<lambda>(e, a). fabs (fdiv e a)) (zip errors actual)))
                                 (Fin 100);
                             rmse_value = fsqrt (mean_skipna (map (\<lambda>e. fmul e e) errors))
                         in Some \<lparr> forecast_df =
                                     map (\<lambda>(d, v).
                                            [(''date'', Date d),
                                             (''forecast'', Num v),
                                             (''lower_bound'',
                                                Num (fsub v (fmul (Fin 1.96) std_error))),
                                             (''upper_bound'',
                                                Num (fadd v (fmul (Fin 1.96) std_error)))])
                                       (zip forecast_dates forecast),
                                   historical =
                                     map (\<lambda>p. [(''date'', Date (date p)),
                                                (''revenue'', Num (Fin (revenue p)))]) df,
                                   mae = fround rnd mae_value 2,
                                   mape = fround rnd mape_value 2,
                                   rmse = fround rnd rmse_value 2,
                                   model_params =
                                     [(''alpha'', Num (fround rnd (smoothing_level model) 4)),
                                      (''beta'', Num (fround rnd (smoothing_trend model) 4)),
                                      (''gamma'', Num (fround rnd (smoothing_seasonal model) 4))] \<rparr>))))"

definition forecast_revenue ::
    "(real \<Rightarrow> nat \<Rightarrow> real) \<Rightarrow> ((date \<times> real) list \<Rightarrow> nat \<Rightarrow> hw_results option)
      \<Rightarrow> period list \<Rightarrow> nat \<Rightarrow> error + forecast_result" where
  "forecast_revenue rnd fit df periods =
     (case seasonal_forecast rnd fit df periods of
        Some result \<Rightarrow> Inr result
      | None \<Rightarrow> simple_forecast df Revenue periods)"

text \<open>\<open>field r f\<close> is field \<open>f\<close> of the result a call returned, \<open>None\<close> when it raised.\<close>

definition field :: "error + 'a \<Rightarrow> ('a \<Rightarrow> 'b) \<Rightarrow> 'b option" where
  "field r f = (case r of Inl e \<Rightarrow> None | Inr x \<Rightarrow> Some (f x))"

section \<open>Sample data\<close>

text \<open>Sample periods used to run the engine on concrete input.\<close>

definition jan :: period where
  "jan = \<lparr> date = (2023, 1, 1), year = 2023, revenue = 100000, gross_profit = 60000,
           operating_income = 30000, net_income = 20000, interest_expense = 1000,
           total_assets = 500000, total_liabilities = 200000, total_equity = 300000,
           cash = 50000, current_assets = 150000, current_liabilities = 100000,
           inventory = 30000, long_term_debt = 100000, ebitda = 35000,
           gross_margin = Fin 60, operating_margin = Fin 30, net_margin = Fin 20,
           ebitda_margin = Fin 35 \<rparr>"

definition feb :: period where
  "feb = jan \<lparr> date := (2023, 2, 1), revenue := 110000, gross_profit := 55000,
               operating_income := 33000, net_income := 25000, ebitda := 38000,
               gross_margin := Fin 50, operating_margin := Fin 30, net_margin := Fin 22.73,
               ebitda_margin := Fin 34.55 \<rparr>"

definition jan_next :: period where
  "jan_next = jan \<lparr> date := (2024, 1, 1), year := 2024, revenue := 110000, gross_profit := 66000,
                    net_income := 22000 \<rparr>"





section \<open>Properties\<close>









lemma fsub_Fin [simp]: "fsub (Fin a) (Fin b) = Fin (a - b)"
  by (simp add: fsub_def)

lemma iloc_neg_last: "df \<noteq> [] \<Longrightarrow> iloc_neg df (Suc 0) = Inr (last df)"
  by (cases df rule: rev_cases) (simp_all add: iloc_neg_def nth_append)

lemma iloc_neg_second: "1 < length df \<Longrightarrow> iloc_neg df 2 = Inr (df ! (length df - 2))"
  by (simp add: iloc_neg_def)

lemma iloc_neg_empty: "iloc_neg [] k = Inl IndexError"
  by (auto simp: iloc_neg_def)

lemma iloc_neg_last1: "df \<noteq> [] \<Longrightarrow> iloc_neg df 1 = Inr (last df)"
  by (simp add: iloc_neg_last)

lemma iloc_neg_map_last1:
  "df \<noteq> [] \<Longrightarrow> iloc_neg (map f df) 1 = Inr (f (last df))"
  by (simp add: iloc_neg_last last_map)

lemma map_upt_nth: "length xs = n \<Longrightarrow> map (\<lambda>i. g (xs ! i)) [0..<n] = map g xs"
  by (auto simp: list_eq_iff_nth_eq)

lemma agg_sum_groupby:
  "agg_sum c (groupby_year df) = map (\<lambda>y. sum_list (map c (year_group df y))) (years_of df)"
  by (simp add: agg_sum_def groupby_year_def comp_def)



lemma length_pct_change [simp]: "length (pct_change xs) = length xs"
  by (cases xs) simp_all








lemma hd_pct_change: "xs \<noteq> [] \<Longrightarrow> hd (pct_change xs) = NaN"
  by (cases xs) simp_all



lemma cagr_value:
  "cagr (calculate_growth_projections rnd df) =
     fround rnd (fmul (if 2 \<le> length (years_of df)
                   then fsub (fpowr (fdiv (Fin (\<Sum>p\<leftarrow>year_group df (last (years_of df)). revenue p))
                                       (Fin (\<Sum>p\<leftarrow>year_group df (hd (years_of df)). revenue p)))
                                (1 / (real (length (years_of df)) - 1))) (Fin 1)
                   else Fin 0) (Fin 100)) 2"
proof (cases "years_of df = []")
  case True
  then show ?thesis
    by (simp add: calculate_growth_projections_def Let_def agg_sum_groupby)
next
  case False
  then show ?thesis
    by (simp add: calculate_growth_projections_def Let_def agg_sum_groupby last_map hd_map
        case_prod_beta)
qed








lemma liquidity_value:
  "df \<noteq> [] \<Longrightarrow> calculate_liquidity_ratios rnd df =
     Inr [(''current_ratio'',
             fround rnd (fdiv (Fin (current_assets (last df))) (Fin (current_liabilities (last df)))) 2),
          (''quick_ratio'',
             fround rnd (fdiv (Fin (current_assets (last df) - inventory (last df)))
                       (Fin (current_liabilities (last df)))) 2),
          (''cash_ratio'',
             fround rnd (fdiv (Fin (cash (last df))) (Fin (current_liabilities (last df)))) 2)]"
  by (simp only: calculate_liquidity_ratios_def iloc_neg_last1 sum.case Let_def simp_thms)

lemma leverage_value:
  "df \<noteq> [] \<Longrightarrow> calculate_leverage_ratios rnd df =
     Inr [(''debt_to_equity'',
             fround rnd (fdiv (Fin (total_liabilities (last df))) (Fin (total_equity (last df)))) 2),
          (''debt_ratio'',
             fround rnd (fdiv (Fin (total_liabilities (last df))) (Fin (total_assets (last df)))) 2),
          (''interest_coverage'',
             fround rnd (if interest_expense (last df) > 0
                     then fdiv (Fin (operating_income (last df))) (Fin (interest_expense (last df)))
                     else Fin 0) 2),
          (''lt_debt_to_equity'',
             fround rnd (fdiv (Fin (long_term_debt (last df))) (Fin (total_equity (last df)))) 2)]"
  by (simp only: calculate_leverage_ratios_def iloc_neg_last1 sum.case Let_def simp_thms)

lemma profitability_value:
  "df \<noteq> [] \<Longrightarrow> calculate_profitability_ratios rnd df =
     Inr [(''roa'', fround rnd (fmul (fdiv (Fin (net_income (last df) * 12))
                                    (Fin (total_assets (last df)))) (Fin 100)) 2),
          (''roe'', fround rnd (fmul (fdiv (Fin (net_income (last df) * 12))
                                    (Fin (total_equity (last df)))) (Fin 100)) 2),
          (''roic'', fround rnd (fmul (fdiv (Fin (operating_income (last df) * 12))
                                     (Fin (total_equity (last df) + long_term_debt (last df))))
                               (Fin 100)) 2),
          (''gross_margin'', gross_margin (last df)),
          (''operating_margin'', operating_margin (last df)),
          (''net_margin'', net_margin (last df))]"
  by (simp only: calculate_profitability_ratios_def iloc_neg_last1 sum.case Let_def simp_thms)

lemma bind_Inr: "bind (Inr x) f = f x"
  by (simp add: bind_def)

lemma max_date_nonempty: "ds \<noteq> [] \<Longrightarrow> \<exists>d. max_date ds = Some d"
  by (cases ds) (simp_all add: max_date_def del: split_paired_Ex)

lemma length_month_starts [simp]: "length (month_starts d n) = n"
  by (induction n arbitrary: d) simp_all

lemma length_date_range [simp]: "length (date_range d n) = n"
  by (simp add: date_range_def)

lemma forecast_col:
  assumes "length ds = length vs"
  shows "col (map (\<lambda>(d, v). [(''date'', Date d), (''forecast'', Num v),
                              (''lower_bound'', Num (fmul v (Fin 0.9))),
                              (''upper_bound'', Num (fmul v (Fin 1.1)))]) (zip ds vs)) ''forecast''
           = map (\<lambda>v. Some (Num v)) vs"
    and "col (map (\<lambda>(d, v). [(''date'', Date d), (''forecast'', Num v),
                              (''lower_bound'', Num (fmul v (Fin 0.9))),
                              (''upper_bound'', Num (fmul v (Fin 1.1)))]) (zip ds vs)) ''lower_bound''
           = map (\<lambda>v. Some (Num (fmul v (Fin 0.9)))) vs"
    and "col (map (\<lambda>(d, v). [(''date'', Date d), (''forecast'', Num v),
                              (''lower_bound'', Num (fmul v (Fin 0.9))),
                              (''upper_bound'', Num (fmul v (Fin 1.1)))]) (zip ds vs)) ''upper_bound''
           = map (\<lambda>v. Some (Num (fmul v (Fin 1.1)))) vs"
  using assms
  by (induction ds vs rule: list_induct2) (simp_all add: col_def)

lemma simple_forecast_value:
  assumes "df \<noteq> []"
  shows "\<exists>latest. max_date (map date df) = Some latest \<and>
    simple_forecast df metric periods =
      Inr \<lparr> forecast_df =
              map (\<lambda>(d, v). [(''date'', Date d), (''forecast'', Num v),
                              (''lower_bound'', Num (fmul v (Fin 0.9))),
                              (''upper_bound'', Num (fmul v (Fin 1.1)))])
                (zip (date_range (add_month latest) periods)
                   (map (\<lambda>i. fmul (Fin (metric_value metric (last df)))
                             (fpow (fadd (Fin 1)
                                (mean_skipna (pct_change (map (metric_value metric) df)))) (i + 1)))
                      [0..<periods])),
            historical =
              map (\<lambda>p. [(''date'', Date (date p)),
                         (metric_name metric, Num (Fin (metric_value metric p)))]) df,
            mae = Fin 0, mape = Fin 0, rmse = Fin 0,
            model_params = [(''method'', Str ''simple_growth'')] \<rparr>"
proof -
  from assms obtain latest where l: "max_date (map date df) = Some latest"
    using max_date_nonempty [of "map date df"] by auto
  show ?thesis
    unfolding simple_forecast_def Let_def iloc_neg_map_last1 [OF assms] bind_Inr l
    by simp
qed

text \<open>On the empty series the caller gets an error whatever the fit does.\<close>

lemma forecast_revenue_empty: "forecast_revenue rnd fit [] periods = Inl IndexError"
  by (simp add: forecast_revenue_def seasonal_forecast_def simple_forecast_def max_date_def
      iloc_neg_def bind_def split: option.split)

lemma seasonal_forecast_fit_raises:
  "fit (map (\<lambda>p. (date p, revenue p)) df) periods = None \<Longrightarrow>
     seasonal_forecast rnd fit df periods = None"
  by (simp add: seasonal_forecast_def)

text \<open>
  Claim C2, as the engine has it. \<open>calculate_kpis\<close> fails exactly on the empty series,
  and the error it raises there is the \<open>IndexError\<close> of \<open>df.iloc[-1]\<close>; the engine has no
  error of its own for missing data. On every non-empty series it raises nothing and
  returns the KPI dictionary: the latest period's revenue, gross profit, operating
  income, net income, EBITDA, their margins, total assets, total liabilities, total
  equity and cash, and the two period-over-period changes.
\<close>

theorem calculate_kpis_result:
  "(calculate_kpis df = Inl IndexError \<longleftrightarrow> df = []) \<and>
   (df \<noteq> [] \<longrightarrow>
      calculate_kpis df =
        Inr [(''total_revenue'', Fin (revenue (last df))),
             (''revenue_change'',
                if 1 < length df
                then fmul (fsub (fdiv (Fin (revenue (last df)))
                                   (Fin (revenue (df ! (length df - 2))))) (Fin 1)) (Fin 100)
                else Fin 0),
             (''gross_profit'', Fin (gross_profit (last df))),
             (''gross_margin'', gross_margin (last df)),
             (''operating_income'', Fin (operating_income (last df))),
             (''operating_margin'', operating_margin (last df)),
             (''net_income'', Fin (net_income (last df))),
             (''net_income_change'',
                if 1 < length df
                then fmul (fsub (fdiv (Fin (net_income (last df)))
                                   (Fin (net_income (df ! (length df - 2))))) (Fin 1)) (Fin 100)
                else Fin 0),
             (''net_margin'', net_margin (last df)),
             (''ebitda'', Fin (ebitda (last df))),
             (''ebitda_margin'', ebitda_margin (last df)),
             (''total_assets'', Fin (total_assets (last df))),
             (''total_liabilities'', Fin (total_liabilities (last df))),
             (''total_equity'', Fin (total_equity (last df))),
             (''cash'', Fin (cash (last df)))])"
proof (cases "df = []")
  case True
  then show ?thesis by (simp add: calculate_kpis_def iloc_neg_empty)
next
  case False
  then show ?thesis
    by (simp add: calculate_kpis_def iloc_neg_last iloc_neg_second)
qed

theorem calculate_kpis_result_witness:
  "calculate_kpis [] = Inl IndexError \<and> [jan, feb] \<noteq> [] \<and>
   calculate_kpis [jan, feb] =
     Inr [(''total_revenue'', Fin 110000), (''revenue_change'', Fin 10),
          (''gross_profit'', Fin 55000), (''gross_margin'', Fin 50),
          (''operating_income'', Fin 33000), (''operating_margin'', Fin 30),
          (''net_income'', Fin 25000), (''net_income_change'', Fin 25),
          (''net_margin'', Fin 22.73), (''ebitda'', Fin 38000),
          (''ebitda_margin'', Fin 34.55), (''total_assets'', Fin 500000),
          (''total_liabilities'', Fin 200000), (''total_equity'', Fin 300000),
          (''cash'', Fin 50000)]"
  using calculate_kpis_result [of "[]"] calculate_kpis_result [of "[jan, feb]"]
  by (simp add: jan_def feb_def)

text \<open>
  Claim C2 as stated fails on the error: on the empty series the error is \<open>IndexError\<close>,
  not an insufficient-data error.
\<close>

theorem calculate_kpis_empty_counterexample:
  "calculate_kpis [] = Inl IndexError"
  by (simp add: calculate_kpis_def iloc_neg_def)

text \<open>
  Claim C5. With at least two periods, \<open>revenue_change\<close> and \<open>net_income_change\<close> are
  \<open>(latest / previous - 1) * 100\<close> over the last two periods (in float arithmetic, and as
  the real number of that formula when the previous value is not zero); with exactly one
  period both are \<open>0\<close> and nothing is raised.
\<close>

theorem calculate_kpis_change:
  "(2 \<le> length df \<longrightarrow>
      item (calculate_kpis df) ''revenue_change'' =
        Some (fmul (fsub (fdiv (Fin (revenue (last df))) (Fin (revenue (df ! (length df - 2)))))
                     (Fin 1)) (Fin 100)) \<and>
      item (calculate_kpis df) ''net_income_change'' =
        Some (fmul (fsub (fdiv (Fin (net_income (last df)))
                           (Fin (net_income (df ! (length df - 2))))) (Fin 1)) (Fin 100)) \<and>
      (revenue (df ! (length df - 2)) \<noteq> 0 \<longrightarrow>
         item (calculate_kpis df) ''revenue_change'' =
           Some (Fin ((revenue (last df) / revenue (df ! (length df - 2)) - 1) * 100))) \<and>
      (net_income (df ! (length df - 2)) \<noteq> 0 \<longrightarrow>
         item (calculate_kpis df) ''net_income_change'' =
           Some (Fin ((net_income (last df) / net_income (df ! (length df - 2)) - 1) * 100)))) \<and>
   (length df = 1 \<longrightarrow>
      item (calculate_kpis df) ''revenue_change'' = Some (Fin 0) \<and>
      item (calculate_kpis df) ''net_income_change'' = Some (Fin 0))"
proof (intro conjI impI)
  assume "length df = 1"
  then have "df \<noteq> []" and "\<not> 1 < length df" by auto
  then show "item (calculate_kpis df) ''revenue_change'' = Some (Fin 0)"
    and "item (calculate_kpis df) ''net_income_change'' = Some (Fin 0)"
    by (simp_all add: calculate_kpis_def iloc_neg_last item_def)
next
  assume "2 \<le> length df"
  then have ne: "df \<noteq> []" and gt: "1 < length df" by auto
  show "item (calculate_kpis df) ''revenue_change'' =
        Some (fmul (fsub (fdiv (Fin (revenue (last df))) (Fin (revenue (df ! (length df - 2)))))
                     (Fin 1)) (Fin 100))"
    using ne gt by (simp add: calculate_kpis_def iloc_neg_last iloc_neg_second item_def)
  show "item (calculate_kpis df) ''net_income_change'' =
        Some (fmul (fsub (fdiv (Fin (net_income (last df)))
                           (Fin (net_income (df ! (length df - 2))))) (Fin 1)) (Fin 100))"
    using ne gt by (simp add: calculate_kpis_def iloc_neg_last iloc_neg_second item_def)
  show "item (calculate_kpis df) ''revenue_change'' =
           Some (Fin ((revenue (last df) / revenue (df ! (length df - 2)) - 1) * 100))"
    if "revenue (df ! (length df - 2)) \<noteq> 0"
    using ne gt that
    by (simp add: calculate_kpis_def iloc_neg_last iloc_neg_second item_def fsub_def)
  show "item (calculate_kpis df) ''net_income_change'' =
           Some (Fin ((net_income (last df) / net_income (df ! (length df - 2)) - 1) * 100))"
    if "net_income (df ! (length df - 2)) \<noteq> 0"
    using ne gt that
    by (simp add: calculate_kpis_def iloc_neg_last iloc_neg_second item_def fsub_def)
qed

theorem calculate_kpis_change_witness:
  "2 \<le> length [jan, feb] \<and> revenue jan \<noteq> 0 \<and> net_income jan \<noteq> 0 \<and>
   item (calculate_kpis [jan, feb]) ''revenue_change'' = Some (Fin 10) \<and>
   item (calculate_kpis [jan, feb]) ''net_income_change'' = Some (Fin 25) \<and>
   length [jan] = 1 \<and>
   item (calculate_kpis [jan]) ''revenue_change'' = Some (Fin 0) \<and>
   item (calculate_kpis [jan]) ''net_income_change'' = Some (Fin 0)"
  using calculate_kpis_change [of "[jan, feb]"] calculate_kpis_change [of "[jan]"]
  by (simp add: jan_def feb_def)






text \<open>
  Claim C7. \<open>get_period_comparison\<close> returns the empty dictionary, and raises nothing, when
  either requested year has no period in the series. When both have periods, the revenue
  and net-income growth are \<open>(sum_a / sum_b - 1) * 100\<close> over the sums within each year, and
  each year's gross margin is \<open>sum(gross_profit) / sum(revenue) * 100\<close> over that year.
\<close>

theorem get_period_comparison_values:
  "(filter (\<lambda>p. year p = a) df = [] \<or> filter (\<lambda>p. year p = b) df = [] \<longrightarrow>
      get_period_comparison df a b = []) \<and>
   (filter (\<lambda>p. year p = a) df \<noteq> [] \<and> filter (\<lambda>p. year p = b) df \<noteq> [] \<longrightarrow>
      map_of (get_period_comparison df a b) ''revenue_growth'' =
        Some (fmul (fsub (fdiv (Fin (\<Sum>p\<leftarrow>filter (\<lambda>p. year p = a) df. revenue p))
                            (Fin (\<Sum>p\<leftarrow>filter (\<lambda>p. year p = b) df. revenue p))) (Fin 1)) (Fin 100)) \<and>
      map_of (get_period_comparison df a b) ''net_income_growth'' =
        Some (fmul (fsub (fdiv (Fin (\<Sum>p\<leftarrow>filter (\<lambda>p. year p = a) df. net_income p))
                            (Fin (\<Sum>p\<leftarrow>filter (\<lambda>p. year p = b) df. net_income p))) (Fin 1)) (Fin 100)) \<and>
      map_of (get_period_comparison df a b) ''current_gross_margin'' =
        Some (fmul (fdiv (Fin (\<Sum>p\<leftarrow>filter (\<lambda>p. year p = a) df. gross_profit p))
                      (Fin (\<Sum>p\<leftarrow>filter (\<lambda>p. year p = a) df. revenue p))) (Fin 100)) \<and>
      map_of (get_period_comparison df a b) ''previous_gross_margin'' =
        Some (fmul (fdiv (Fin (\<Sum>p\<leftarrow>filter (\<lambda>p. year p = b) df. gross_profit p))
                      (Fin (\<Sum>p\<leftarrow>filter (\<lambda>p. year p = b) df. revenue p))) (Fin 100)))"
  by (simp add: get_period_comparison_def Let_def)

theorem get_period_comparison_values_witness:
  "filter (\<lambda>p. year p = 2022) [jan, feb, jan_next] = [] \<and>
   get_period_comparison [jan, feb, jan_next] 2024 2022 = [] \<and>
   get_period_comparison [jan, feb, jan_next] 2022 2023 = [] \<and>
   filter (\<lambda>p. year p = 2024) [jan, feb, jan_next] \<noteq> [] \<and>
   filter (\<lambda>p. year p = 2023) [jan, feb, jan_next] \<noteq> [] \<and>
   map_of (get_period_comparison [jan, feb, jan_next] 2024 2023) ''revenue_growth'' =
     Some (Fin ((110000 / 210000 - 1) * 100)) \<and>
   map_of (get_period_comparison [jan, feb, jan_next] 2024 2023) ''current_gross_margin'' =
     Some (Fin 60)"
  using get_period_comparison_values [of 2024 "[jan, feb, jan_next]" 2022]
        get_period_comparison_values [of 2022 "[jan, feb, jan_next]" 2023]
        get_period_comparison_values [of 2024 "[jan, feb, jan_next]" 2023]
  by (simp add: jan_def feb_def jan_next_def)

text \<open>
  Claim C10. On every non-empty series \<open>get_health_indicators\<close> returns exactly six
  indicators, in the order Current Ratio, Quick Ratio, Debt to Equity, Interest Coverage,
  Return on Equity, Net Profit Margin. The \<open>value\<close> of the first four is the numeric ratio;
  the \<open>value\<close> of the last two is a string, the printed number followed by \<open>%\<close>.
\<close>

theorem get_health_indicators_values:
  assumes "df \<noteq> []"
  shows "column (get_health_indicators rnd fmt df) ''metric'' =
           Some [Some (Str ''Current Ratio''), Some (Str ''Quick Ratio''),
                 Some (Str ''Debt to Equity''), Some (Str ''Interest Coverage''),
                 Some (Str ''Return on Equity''), Some (Str ''Net Profit Margin'')] \<and>
         column (get_health_indicators rnd fmt df) ''value'' =
           Some [Some (Num (fround rnd (fdiv (Fin (current_assets (last df)))
                                      (Fin (current_liabilities (last df)))) 2)),
                 Some (Num (fround rnd (fdiv (Fin (current_assets (last df) - inventory (last df)))
                                      (Fin (current_liabilities (last df)))) 2)),
                 Some (Num (fround rnd (fdiv (Fin (total_liabilities (last df)))
                                      (Fin (total_equity (last df)))) 2)),
                 Some (Num (fround rnd (if interest_expense (last df) > 0
                                    then fdiv (Fin (operating_income (last df)))
                                           (Fin (interest_expense (last df)))
                                    else Fin 0) 2)),
                 Some (Str (fmt (fround rnd (fmul (fdiv (Fin (net_income (last df) * 12))
                                                 (Fin (total_equity (last df)))) (Fin 100)) 2)
                            @ ''%'')),
                 Some (Str (fmt (net_margin (last df)) @ ''%''))]"
  unfolding get_health_indicators_def liquidity_value [OF assms] leverage_value [OF assms]
    profitability_value [OF assms] bind_Inr
  by (simp add: getitem_def bind_Inr column_def col_def)

theorem get_health_indicators_values_witness:
  "[jan] \<noteq> [] \<and>
   column (get_health_indicators round_ties_even (\<lambda>x. if x = Fin 80 then ''80.0'' else ''20.0'') [jan]) ''metric'' =
     Some [Some (Str ''Current Ratio''), Some (Str ''Quick Ratio''),
           Some (Str ''Debt to Equity''), Some (Str ''Interest Coverage''),
           Some (Str ''Return on Equity''), Some (Str ''Net Profit Margin'')] \<and>
   column (get_health_indicators round_ties_even (\<lambda>x. if x = Fin 80 then ''80.0'' else ''20.0'') [jan]) ''value'' =
     Some [Some (Num (Fin 1.5)), Some (Num (Fin 1.2)), Some (Num (Fin 0.67)), Some (Num (Fin 30)),
           Some (Str ''80.0%''), Some (Str ''20.0%'')]"
  using get_health_indicators_values [of "[jan]" round_ties_even "\<lambda>x. if x = Fin 80 then ''80.0'' else ''20.0''"]
  by (simp add: jan_def round_ties_even_def round_half_even_def)

text \<open>
  Claim C9. On every non-empty series and for every entry (name, growth, margin change) of
  the scenario table, in table order, \<open>scenario_analysis\<close> returns a row with projected
  revenue \<open>latest monthly revenue * 12 * (1 + growth)\<close>, projected margin
  \<open>latest net margin / 100 + margin change\<close> (reported times 100) and projected net income
  \<open>projected revenue * projected margin\<close>. A table supplied by the caller, of any length
  and with any names, is handled by the same rule as the default table. With latest
  monthly revenue 100000 and net margin 20, the default base scenario gives revenue
  1320000 and net income 264000.
\<close>

theorem scenario_analysis_values:
  assumes "df \<noteq> []"
  shows "column (scenario_analysis df (Some t)) ''scenario'' =
           Some (map (\<lambda>(name, growth, margin_change). Some (Str name)) t) \<and>
         column (scenario_analysis df (Some t)) ''revenue'' =
           Some (map (\<lambda>(name, growth, margin_change).
                   Some (Num (Fin (revenue (last df) * 12 * (1 + growth))))) t) \<and>
         column (scenario_analysis df (Some t)) ''net_margin'' =
           Some (map (\<lambda>(name, growth, margin_change).
                   Some (Num (fmul (fadd (fdiv (net_margin (last df)) (Fin 100))
                                      (Fin margin_change)) (Fin 100)))) t) \<and>
         column (scenario_analysis df (Some t)) ''net_income'' =
           Some (map (\<lambda>(name, growth, margin_change).
                   Some (Num (fmul (Fin (revenue (last df) * 12 * (1 + growth)))
                                (fadd (fdiv (net_margin (last df)) (Fin 100))
                                   (Fin margin_change))))) t) \<and>
         scenario_analysis df (Some default_scenarios) = scenario_analysis df None \<and>
         (revenue (last df) = 100000 \<and> net_margin (last df) = Fin 20 \<longrightarrow>
            column (scenario_analysis df None) ''scenario'' =
              Some [Some (Str ''pessimistic''), Some (Str ''base''), Some (Str ''optimistic'')] \<and>
            column (scenario_analysis df None) ''revenue'' =
              Some [Some (Num (Fin 1140000)), Some (Num (Fin 1320000)),
                    Some (Num (Fin 1440000))] \<and>
            column (scenario_analysis df None) ''net_income'' =
              Some [Some (Num (Fin 205200)), Some (Num (Fin 264000)),
                    Some (Num (Fin 316800))])"
proof -
  have sa: "scenario_analysis df (Some t) =
      Inr (map (\<lambda>(scenario_name, growth, margin_change).
             [(''scenario'', Str scenario_name),
              (''revenue'', Num (Fin (revenue (last df) * 12 * (1 + growth)))),
              (''growth_rate'', Num (Fin (growth * 100))),
              (''net_margin'', Num (fmul (fadd (fdiv (net_margin (last df)) (Fin 100))
                                           (Fin margin_change)) (Fin 100))),
              (''net_income'', Num (fmul (Fin (revenue (last df) * 12 * (1 + growth)))
                                    (fadd (fdiv (net_margin (last df)) (Fin 100))
                                       (Fin margin_change))))]) t)" for t
    unfolding scenario_analysis_def
    by (simp only: iloc_neg_map_last1 [OF assms] bind_Inr Let_def option.case)
  have none: "scenario_analysis df None = scenario_analysis df (Some default_scenarios)"
    by (simp add: scenario_analysis_def)
  show ?thesis
    unfolding none sa column_def col_def
    by (simp add: comp_def case_prod_beta default_scenarios_def)
qed

theorem scenario_analysis_values_witness:
  "[jan] \<noteq> [] \<and> revenue (last [jan]) = 100000 \<and> net_margin (last [jan]) = Fin 20 \<and>
   column (scenario_analysis [jan] None) ''scenario'' =
     Some [Some (Str ''pessimistic''), Some (Str ''base''), Some (Str ''optimistic'')] \<and>
   column (scenario_analysis [jan] None) ''revenue'' =
     Some [Some (Num (Fin 1140000)), Some (Num (Fin 1320000)), Some (Num (Fin 1440000))] \<and>
   column (scenario_analysis [jan] None) ''net_income'' =
     Some [Some (Num (Fin 205200)), Some (Num (Fin 264000)), Some (Num (Fin 316800))] \<and>
   column (scenario_analysis [jan] (Some [(''boom'', 0.5, 0.05), (''bust'', - 0.5, - 0.1)]))
     ''revenue'' = Some [Some (Num (Fin 1800000)), Some (Num (Fin 600000))] \<and>
   column (scenario_analysis [jan] (Some [(''boom'', 0.5, 0.05), (''bust'', - 0.5, - 0.1)]))
     ''net_income'' = Some [Some (Num (Fin 450000)), Some (Num (Fin 60000))]"
  using scenario_analysis_values [of "[jan]" "[(''boom'', 0.5, 0.05), (''bust'', - 0.5, - 0.1)]"]
  by (simp add: jan_def)







text \<open>
  Claim C1, as the engine has it. On every non-empty series on which the seasonal fit
  raises (or anything else in the \<open>try\<close> block does), \<open>forecast_revenue\<close> returns the
  result of the fallback and no error: the accuracy metrics \<open>mae\<close>, \<open>mape\<close> and \<open>rmse\<close> are
  \<open>0\<close>, the \<open>i\<close>-th forecast point (from \<open>i = 0\<close>) is
  \<open>last_value * (1 + growth_rate) ** (i + 1)\<close> with \<open>growth_rate\<close> the mean of the
  period-over-period changes of revenue, and the bounds are the forecast times \<open>0.9\<close>
  and times \<open>1.1\<close>.
\<close>

theorem forecast_revenue_fallback:
  assumes "df \<noteq> []" and "seasonal_forecast rnd fit df periods = None"
  shows "forecast_revenue rnd fit df periods = simple_forecast df Revenue periods \<and>
    field (forecast_revenue rnd fit df periods) mae = Some (Fin 0) \<and>
    field (forecast_revenue rnd fit df periods) mape = Some (Fin 0) \<and>
    field (forecast_revenue rnd fit df periods) rmse = Some (Fin 0) \<and>
    field (forecast_revenue rnd fit df periods) (\<lambda>r. col (forecast_df r) ''forecast'') =
      Some (map (\<lambda>i. Some (Num (fmul (Fin (revenue (last df)))
                    (fpow (fadd (Fin 1) (mean_skipna (pct_change (map revenue df)))) (i + 1)))))
              [0..<periods]) \<and>
    field (forecast_revenue rnd fit df periods) (\<lambda>r. col (forecast_df r) ''lower_bound'') =
      Some (map (\<lambda>i. Some (Num (fmul (fmul (Fin (revenue (last df)))
                    (fpow (fadd (Fin 1) (mean_skipna (pct_change (map revenue df)))) (i + 1)))
                  (Fin 0.9)))) [0..<periods]) \<and>
    field (forecast_revenue rnd fit df periods) (\<lambda>r. col (forecast_df r) ''upper_bound'') =
      Some (map (\<lambda>i. Some (Num (fmul (fmul (Fin (revenue (last df)))
                    (fpow (fadd (Fin 1) (mean_skipna (pct_change (map revenue df)))) (i + 1)))
                  (Fin 1.1)))) [0..<periods])"
proof -
  have fb: "forecast_revenue rnd fit df periods = simple_forecast df Revenue periods"
    using assms(2) by (simp add: forecast_revenue_def)
  obtain latest where sf: "simple_forecast df Revenue periods =
      Inr \<lparr> forecast_df =
              map (\<lambda>(d, v). [(''date'', Date d), (''forecast'', Num v),
                              (''lower_bound'', Num (fmul v (Fin 0.9))),
                              (''upper_bound'', Num (fmul v (Fin 1.1)))])
                (zip (date_range (add_month latest) periods)
                   (map (\<lambda>i. fmul (Fin (metric_value Revenue (last df)))
                             (fpow (fadd (Fin 1)
                                (mean_skipna (pct_change (map (metric_value Revenue) df)))) (i + 1)))
                      [0..<periods])),
            historical =
              map (\<lambda>p. [(''date'', Date (date p)),
                         (metric_name Revenue, Num (Fin (metric_value Revenue p)))]) df,
            mae = Fin 0, mape = Fin 0, rmse = Fin 0,
            model_params = [(''method'', Str ''simple_growth'')] \<rparr>"
    using simple_forecast_value [OF assms(1), of Revenue periods] by blast
  show ?thesis
    unfolding fb sf field_def
    by (simp add: forecast_col comp_def)
qed

theorem forecast_revenue_fallback_witness:
  "[jan, feb] \<noteq> [] \<and> seasonal_forecast round_ties_even (\<lambda>series periods. None) [jan, feb] 3 = None \<and>
   mean_skipna (pct_change (map revenue [jan, feb])) = Fin (1 / 10) \<and>
   field (forecast_revenue round_ties_even (\<lambda>series periods. None) [jan, feb] 3) mae = Some (Fin 0) \<and>
   field (forecast_revenue round_ties_even (\<lambda>series periods. None) [jan, feb] 3) mape = Some (Fin 0) \<and>
   field (forecast_revenue round_ties_even (\<lambda>series periods. None) [jan, feb] 3) rmse = Some (Fin 0) \<and>
   field (forecast_revenue round_ties_even (\<lambda>series periods. None) [jan, feb] 3)
     (\<lambda>r. col (forecast_df r) ''forecast'') =
     Some [Some (Num (Fin 121000)), Some (Num (Fin 133100)), Some (Num (Fin 146410))] \<and>
   field (forecast_revenue round_ties_even (\<lambda>series periods. None) [jan, feb] 3)
     (\<lambda>r. col (forecast_df r) ''lower_bound'') =
     Some [Some (Num (Fin 108900)), Some (Num (Fin 119790)), Some (Num (Fin 131769))] \<and>
   field (forecast_revenue round_ties_even (\<lambda>series periods. None) [jan, feb] 3)
     (\<lambda>r. col (forecast_df r) ''upper_bound'') =
     Some [Some (Num (Fin 133100)), Some (Num (Fin 146410)), Some (Num (Fin 161051))]"
proof -
  have g: "mean_skipna (pct_change (map revenue [jan, feb])) = Fin (1 / 10)"
    by (simp add: mean_skipna_def jan_def feb_def)
  have s: "seasonal_forecast round_ties_even (\<lambda>series periods. None) [jan, feb] 3 = None"
    by (simp add: seasonal_forecast_def)
  have n: "[jan, feb] \<noteq> []" by simp
  have l: "revenue (last [jan, feb]) = 110000" by (simp add: feb_def)
  show ?thesis
    using forecast_revenue_fallback [OF n s, THEN conjunct2]
    unfolding g l
    by (simp add: s n upt_conv_Cons)
qed

text \<open>
  Claim C1 as stated fails on the empty series: the fit fails there, and the fallback
  raises at \<open>series.iloc[-1]\<close>, so the caller gets an error instead of a forecast.
\<close>

theorem forecast_revenue_empty_counterexample:
  "seasonal_forecast round_ties_even (\<lambda>series periods. None) [] 6 = None \<and>
   forecast_revenue round_ties_even (\<lambda>series periods. None) [] 6 = Inl IndexError"
  by (simp add: seasonal_forecast_def forecast_revenue_def simple_forecast_def iloc_neg_def
      bind_def)

end
